theory Spec2Isabelle
  imports Complex_Main "HOL-Library.Word"
begin

unbundle bit_operations_syntax

section \<open>Data model of the PN532 driver (src/pn532/pn532.py)\<close>

text \<open>
  A Python \<open>bytes\<close>/\<open>bytearray\<close> value is a list of 8-bit words. Python integers are
  unbounded and are modelled by \<open>int\<close>; reading a byte as an integer is \<open>uint\<close>, and storing
  an integer that the source has already masked with \<open>& 0xFF\<close> is \<open>word_of_int\<close>.
  The \<open>print\<close> calls guarded by \<open>self.debug\<close> have no effect on any returned value or on
  the transport and are left out.
\<close>

type_synonym byte = "8 word"
type_synonym bytes = "byte list"

text \<open>
  The exceptions the driver raises or catches. \<open>RuntimeError\<close> carries the message and the
  further integer arguments of the raise; \<open>NotImplementedError\<close> is a subclass of
  \<open>RuntimeError\<close> in Python; \<open>PN532Error\<close> carries \<open>err\<close> and \<open>errmsg\<close>.
\<close>

datatype exn =
    RuntimeError string "int list"
  | NotImplementedError
  | BusyError
  | OSError
  | IndexError
  | KeyError byte
  | TypeError
  | AssertionError string
  | PN532Error byte string

fun is_RuntimeError :: "exn \<Rightarrow> bool" where
  "is_RuntimeError (RuntimeError m a) = True"
| "is_RuntimeError NotImplementedError = True"
| "is_RuntimeError e = False"

definition PREAMBLE :: byte where "PREAMBLE = 0x00"
definition STARTCODE1 :: byte where "STARTCODE1 = 0x00"
definition STARTCODE2 :: byte where "STARTCODE2 = 0xFF"
definition POSTAMBLE :: byte where "POSTAMBLE = 0x00"
definition HOSTTOPN532 :: byte where "HOSTTOPN532 = 0xD4"
definition PN532TOHOST :: byte where "PN532TOHOST = 0xD5"

definition COMMAND_GETFIRMWAREVERSION :: int where "COMMAND_GETFIRMWAREVERSION = 0x02"
definition COMMAND_SAMCONFIGURATION :: int where "COMMAND_SAMCONFIGURATION = 0x14"
definition COMMAND_INLISTPASSIVETARGET :: int where "COMMAND_INLISTPASSIVETARGET = 0x4A"
definition COMMAND_INDATAEXCHANGE :: int where "COMMAND_INDATAEXCHANGE = 0x40"
definition MIFARE_ISO14443A :: byte where "MIFARE_ISO14443A = 0x00"
definition MIFARE_CMD_READ :: byte where "MIFARE_CMD_READ = 0x30"
definition MIFARE_CMD_WRITE :: byte where "MIFARE_CMD_WRITE = 0xA0"

definition ACK :: bytes where
  "ACK = [0x00, 0x00, 0xFF, 0x00, 0xFF, 0x00]"

subsection \<open>Python sequence operations\<close>

text \<open>\<open>xs[a:b]\<close> for \<open>0 \<le> a\<close>, \<open>0 \<le> b\<close>: never raises, and is cut at the end of \<open>xs\<close>.\<close>

definition slice :: "'a list \<Rightarrow> nat \<Rightarrow> nat \<Rightarrow> 'a list" where
  "slice xs a b = take (b - a) (drop a xs)"

text \<open>\<open>xs[i]\<close> for \<open>0 \<le> i\<close>: raises \<open>IndexError\<close> out of range.\<close>

definition getitem :: "'a list \<Rightarrow> nat \<Rightarrow> exn + 'a" where
  "getitem xs i = (if i < length xs then Inr (xs ! i) else Inl IndexError)"

text \<open>\<open>r[i]\<close> where \<open>r\<close> may be \<open>None\<close>: subscripting \<open>None\<close> raises \<open>TypeError\<close>.\<close>

definition getitem_opt :: "'a list option \<Rightarrow> nat \<Rightarrow> exn + 'a" where
  "getitem_opt r i = (case r of None \<Rightarrow> Inl TypeError | Some xs \<Rightarrow> getitem xs i)"

text \<open>\<open>sum(xs)\<close> over bytes, as a Python integer.\<close>

definition py_sum :: "bytes \<Rightarrow> int" where
  "py_sum xs = sum_list (map uint xs)"

section \<open>Error table\<close>

definition PN532_ERRORS :: "(byte \<times> string) list" where
  "PN532_ERRORS =
   [(0x01, ''PN532 ERROR TIMEOUT''),
    (0x02, ''PN532 ERROR CRC''),
    (0x03, ''PN532 ERROR PARITY''),
    (0x04, ''PN532 ERROR COLLISION_BITCOUNT''),
    (0x05, ''PN532 ERROR MIFARE_FRAMING''),
    (0x06, ''PN532 ERROR COLLISION_BITCOLLISION''),
    (0x07, ''PN532 ERROR NOBUFS''),
    (0x09, ''PN532 ERROR RFNOBUFS''),
    (0x0a, ''PN532 ERROR ACTIVE_TOOSLOW''),
    (0x0b, ''PN532 ERROR RFPROTO''),
    (0x0d, ''PN532 ERROR TOOHOT''),
    (0x0e, ''PN532 ERROR INTERNAL_NOBUFS''),
    (0x10, ''PN532 ERROR INVAL''),
    (0x12, ''PN532 ERROR DEP_INVALID_COMMAND''),
    (0x13, ''PN532 ERROR DEP_BADDATA''),
    (0x14, ''PN532 ERROR MIFARE_AUTH''),
    (0x18, ''PN532 ERROR NOSECURE''),
    (0x19, ''PN532 ERROR I2CBUSY''),
    (0x23, ''PN532 ERROR UIDCHECKSUM''),
    (0x25, ''PN532 ERROR DEPSTATE''),
    (0x26, ''PN532 ERROR HCIINVAL''),
    (0x27, ''PN532 ERROR CONTEXT''),
    (0x29, ''PN532 ERROR RELEASED''),
    (0x2a, ''PN532 ERROR CARDSWAPPED''),
    (0x2b, ''PN532 ERROR NOCARD''),
    (0x2c, ''PN532 ERROR MISMATCH''),
    (0x2d, ''PN532 ERROR OVERCURRENT''),
    (0x2e, ''PN532 ERROR NONAD'')]"

text \<open>
  \<open>PN532Error.__init__\<close>: \<open>self.errmsg = PN532_ERRORS[err]\<close> is a plain dictionary
  subscript, which raises \<open>KeyError\<close> for a key that is not in the table. \<open>Inr\<close> is the
  constructed exception object, \<open>Inl\<close> the exception raised while constructing it.
\<close>

definition PN532Error_init :: "byte \<Rightarrow> exn + exn" where
  "PN532Error_init err =
     (case map_of PN532_ERRORS err of
        None \<Rightarrow> Inl (KeyError err)
      | Some msg \<Rightarrow> Inr (PN532Error err msg))"

section \<open>Frame codec\<close>

text \<open>
  The frame that \<open>_write_frame\<close> builds (the statements between the assertion and the
  call of \<open>_write_data\<close>), one \<open>let\<close> per assignment. \<open>frame[5:-2] = data\<close> replaces the
  elements from index 5 up to the last two; \<open>frame[-2]\<close> and \<open>frame[-1]\<close> are the last
  two elements.
\<close>

definition build_frame :: "bytes \<Rightarrow> bytes" where
  "build_frame data =
     (let len = int (length data);
          frame = replicate (nat (len + 7)) (0::byte);
          frame = frame[0 := PREAMBLE];
          frame = frame[1 := STARTCODE1];
          frame = frame[2 := STARTCODE2];
          checksum = py_sum (slice frame 0 3);
          frame = frame[3 := word_of_int (len AND 0xFF)];
          frame = frame[4 := word_of_int ((NOT len + 1) AND 0xFF)];
          frame = take 5 frame @ data @ drop (length frame - 2) frame;
          checksum = checksum + py_sum data;
          frame = frame[length frame - 2 := word_of_int (NOT checksum AND 0xFF)];
          frame = frame[length frame - 1 := POSTAMBLE]
      in frame)"

text \<open>
  The \<open>while\<close> loop of \<open>_read_frame\<close> that swallows the zero bytes. The loop test
  \<open>response[offset]\<close> is a subscript, so it raises \<open>IndexError\<close> when \<open>offset\<close> is out
  of range (which happens exactly for the empty buffer, at \<open>offset = 0\<close>).
\<close>

function skip_zeros :: "bytes \<Rightarrow> nat \<Rightarrow> exn + nat" where
  "skip_zeros response offset =
     (if offset < length response then
        (if response ! offset = 0x00 then
           (if offset + 1 \<ge> length response
            then Inl (RuntimeError ''Response frame preamble does not contain 0x00FF!'' [])
            else skip_zeros response (offset + 1))
         else Inr offset)
      else Inl IndexError)"
  by pat_completeness auto
termination
  by (relation "measure (\<lambda>(response, offset). length response - offset)") auto

declare skip_zeros.simps [simp del]

text \<open>The rest of \<open>_read_frame\<close>, on the buffer \<open>response\<close> that \<open>_read_data\<close> returned.\<close>

definition parse_frame :: "bytes \<Rightarrow> exn + bytes" where
  "parse_frame response =
     (case skip_zeros response 0 of
        Inl e \<Rightarrow> Inl e
      | Inr offset \<Rightarrow>
         (case getitem response offset of
            Inl e \<Rightarrow> Inl e
          | Inr b \<Rightarrow>
             if b \<noteq> 0xFF
             then Inl (RuntimeError ''Response frame preamble does not contain 0x00FF!'' [])
             else
               let offset = offset + 1 in
               if offset \<ge> length response
               then Inl (RuntimeError ''Response contains no data!'' [])
               else
                 (case getitem response offset of
                    Inl e \<Rightarrow> Inl e
                  | Inr fl \<Rightarrow>
                     let frame_len = uint fl in
                     (case getitem response (offset + 1) of
                        Inl e \<Rightarrow> Inl e
                      | Inr lcs \<Rightarrow>
                         if (frame_len + uint lcs) AND 0xFF \<noteq> 0
                         then Inl (RuntimeError
                                ''Response length checksum did not match length!'' [])
                         else
                           let checksum =
                                 py_sum (slice response (offset + 2)
                                           (offset + 2 + nat frame_len + 1)) AND 0xFF
                           in
                           if checksum \<noteq> 0
                           then Inl (RuntimeError
                                  ''Response checksum did not match expected value: ''
                                  [checksum])
                           else Inr (slice response (offset + 2)
                                       (offset + 2 + nat frame_len))))))"

section \<open>Transport and control flow\<close>

text \<open>
  A method that talks to the device is a function from the state of the device to a
  result and the next state; a raised exception is the result \<open>Inl\<close>.
\<close>

type_synonym ('s, 'a) io = "'s \<Rightarrow> (exn + 'a) \<times> 's"

definition return_io :: "'a \<Rightarrow> ('s, 'a) io" where
  "return_io a s = (Inr a, s)"

definition raise :: "exn \<Rightarrow> ('s, 'a) io" where
  "raise e s = (Inl e, s)"

definition lift :: "exn + 'a \<Rightarrow> ('s, 'a) io" where
  "lift r s = (r, s)"

definition bind_io :: "('s, 'a) io \<Rightarrow> ('a \<Rightarrow> ('s, 'b) io) \<Rightarrow> ('s, 'b) io" where
  "bind_io m f s = (case m s of (Inl e, s') \<Rightarrow> (Inl e, s') | (Inr a, s') \<Rightarrow> f a s')"

text \<open>\<open>try: m  except <catches>: handler\<close>\<close>

definition try_except :: "('s, 'a) io \<Rightarrow> (exn \<Rightarrow> bool) \<Rightarrow> ('s, 'a) io \<Rightarrow> ('s, 'a) io" where
  "try_except m catches handler s =
     (case m s of
        (Inl e, s') \<Rightarrow> if catches e then handler s' else (Inl e, s')
      | (Inr a, s') \<Rightarrow> (Inr a, s'))"

text \<open>
  The five methods that the class leaves to its subclasses (\<open>_reset\<close>, \<open>_read_data\<close>,
  \<open>_write_data\<close>, \<open>_wait_ready\<close>, \<open>_wakeup\<close>). No subclass is part of the sources, so
  the transport is a parameter: any behaviour, including raising any exception and
  returning fewer or more bytes than asked for.
\<close>

record 's transport =
  reset :: "int \<Rightarrow> ('s, unit) io"
  read_data :: "nat \<Rightarrow> ('s, bytes) io"
  write_data :: "bytes \<Rightarrow> ('s, unit) io"
  wait_ready :: "rat \<Rightarrow> ('s, bool) io"
  wakeup :: "('s, unit) io"

record pn532 =
  debug :: bool

definition write_frame :: "'s transport \<Rightarrow> bytes \<Rightarrow> ('s, unit) io" where
  "write_frame T data =
     (if \<not> (1 < length data \<and> length data < 255)
      then raise (AssertionError ''Data must be array of 1 to 255 bytes.'')
      else write_data T (build_frame data))"

definition read_frame :: "'s transport \<Rightarrow> nat \<Rightarrow> ('s, bytes) io" where
  "read_frame T len =
     bind_io (read_data T (len + 7)) (\<lambda>response. lift (parse_frame response))"

section \<open>Command dispatcher\<close>

text \<open>
  \<open>call_function\<close>. The frame data is \<open>[_HOSTTOPN532, command & 0xFF] + params\<close>.
  The result \<open>None\<close> of the source is \<open>Inr None\<close>.
\<close>

definition call_function ::
  "'s transport \<Rightarrow> int \<Rightarrow> nat \<Rightarrow> bytes \<Rightarrow> rat \<Rightarrow> ('s, bytes option) io" where
  "call_function T command response_length params timeout =
     (let data = HOSTTOPN532 # word_of_int (command AND 0xFF) # params in
      bind_io
        (try_except
           (bind_io (write_frame T data) (\<lambda>_. return_io True))
           (\<lambda>e. e = OSError)
           (bind_io (wakeup T) (\<lambda>_. return_io False)))
        (\<lambda>sent.
          if \<not> sent then return_io None
          else
            bind_io (wait_ready T timeout) (\<lambda>ready.
            if \<not> ready then return_io None
            else
              bind_io (read_data T (length ACK)) (\<lambda>ack.
              if \<not> (ACK = ack)
              then raise (RuntimeError ''Did not receive expected ACK from PN532!'' [])
              else
                bind_io (wait_ready T timeout) (\<lambda>ready.
                if \<not> ready then return_io None
                else
                  bind_io (read_frame T (response_length + 2)) (\<lambda>response.
                  bind_io (lift (getitem response 0)) (\<lambda>r0.
                  if r0 \<noteq> PN532TOHOST
                  then raise (RuntimeError ''Received unexpected command response!'' [])
                  else
                    bind_io (lift (getitem response 1)) (\<lambda>r1.
                    if uint r1 \<noteq> command + 1
                    then raise (RuntimeError ''Received unexpected command response!'' [])
                    else return_io (Some (drop 2 response))))))))))"

section \<open>Device commands\<close>

definition get_firmware_version :: "'s transport \<Rightarrow> ('s, bytes) io" where
  "get_firmware_version T =
     bind_io (call_function T COMMAND_GETFIRMWAREVERSION 4 [] (1 / 2)) (\<lambda>response.
       case response of
         None \<Rightarrow> raise (RuntimeError ''Failed to detect the PN532'' [])
       | Some r \<Rightarrow> return_io r)"

definition SAM_configuration :: "'s transport \<Rightarrow> ('s, unit) io" where
  "SAM_configuration T =
     bind_io (call_function T COMMAND_SAMCONFIGURATION 0 [0x01, 0x14, 0x01] 1)
       (\<lambda>_. return_io ())"

definition read_passive_target :: "'s transport \<Rightarrow> byte \<Rightarrow> rat \<Rightarrow> ('s, bytes option) io" where
  "read_passive_target T card_baud timeout =
     bind_io
       (try_except
          (call_function T COMMAND_INLISTPASSIVETARGET 19 [0x01, card_baud] timeout)
          (\<lambda>e. e = BusyError)
          (return_io None))
       (\<lambda>response.
         case response of
           None \<Rightarrow> return_io None
         | Some r \<Rightarrow>
             bind_io (lift (getitem r 0)) (\<lambda>r0.
             if r0 \<noteq> 0x01
             then raise (RuntimeError ''More than one card detected!'' [])
             else
               bind_io (lift (getitem r 5)) (\<lambda>r5.
               if uint r5 > 7
               then raise (RuntimeError ''Found card with unexpectedly long UID!'' [])
               else return_io (Some (slice r 6 (6 + unat r5))))))"

text \<open>
  \<open>if response[0]: raise PN532Error(response[0])\<close>, then the value computed from the
  response by \<open>k\<close>. The subscript is applied to whatever \<open>call_function\<close> returned,
  \<open>None\<close> included; the constructor of the exception runs before the \<open>raise\<close>.
\<close>

definition check_status :: "bytes option \<Rightarrow> (bytes \<Rightarrow> 'a) \<Rightarrow> ('s, 'a) io" where
  "check_status response k =
     bind_io (lift (getitem_opt response 0)) (\<lambda>r0.
       if r0 \<noteq> 0
       then (case PN532Error_init r0 of Inl e \<Rightarrow> raise e | Inr e \<Rightarrow> raise e)
       else (case response of
               None \<Rightarrow> raise TypeError
             | Some r \<Rightarrow> return_io (k r)))"

definition mifare_classic_authenticate_block ::
  "'s transport \<Rightarrow> bytes \<Rightarrow> int \<Rightarrow> int \<Rightarrow> bytes \<Rightarrow> ('s, bool) io" where
  "mifare_classic_authenticate_block T uid block_number key_number key =
     (let uidlen = length uid;
          keylen = length key;
          params = replicate (3 + uidlen + keylen) (0::byte);
          params = params[0 := 0x01];
          params = params[1 := word_of_int (key_number AND 0xFF)];
          params = params[2 := word_of_int (block_number AND 0xFF)];
          params = take 3 params @ key @ drop (3 + keylen) params;
          params = take (3 + keylen) params @ uid
      in bind_io (call_function T COMMAND_INDATAEXCHANGE 1 params 1) (\<lambda>response.
           check_status response (\<lambda>r. r ! 0 = 0x00)))"

definition mifare_classic_read_block :: "'s transport \<Rightarrow> int \<Rightarrow> ('s, bytes) io" where
  "mifare_classic_read_block T block_number =
     bind_io
       (call_function T COMMAND_INDATAEXCHANGE 17
          [0x01, MIFARE_CMD_READ, word_of_int (block_number AND 0xFF)] 1)
       (\<lambda>response. check_status response (\<lambda>r. drop 1 r))"

definition mifare_classic_write_block :: "'s transport \<Rightarrow> int \<Rightarrow> bytes \<Rightarrow> ('s, bool) io" where
  "mifare_classic_write_block T block_number data =
     (if \<not> (length data = 16)
      then raise (AssertionError ''Data must be an array of 16 bytes!'')
      else
        let params = replicate 19 (0::byte);
            params = params[0 := 0x01];
            params = params[1 := MIFARE_CMD_WRITE];
            params = params[2 := word_of_int (block_number AND 0xFF)];
            params = take 3 params @ data
        in bind_io (call_function T COMMAND_INDATAEXCHANGE 1 params 1) (\<lambda>response.
             check_status response (\<lambda>r. r ! 0 = 0x00)))"

section \<open>Session bootstrap\<close>

text \<open>
  \<open>PN532.__init__\<close>. \<open>if reset:\<close> is false for \<open>None\<close> and for pin \<open>0\<close>. The
  \<open>except (BusyError, RuntimeError)\<close> clause catches \<open>BusyError\<close>, \<open>RuntimeError\<close> and
  the subclasses of \<open>RuntimeError\<close>, and nothing else.
\<close>

definition reset_if_given :: "'s transport \<Rightarrow> int option \<Rightarrow> ('s, unit) io" where
  "reset_if_given T reset_pin =
     (case reset_pin of
        None \<Rightarrow> return_io ()
      | Some pin \<Rightarrow> if pin \<noteq> 0 then reset T pin else return_io ())"

definition PN532_init :: "'s transport \<Rightarrow> bool \<Rightarrow> int option \<Rightarrow> ('s, pn532) io" where
  "PN532_init T dbg reset_pin =
     bind_io (reset_if_given T reset_pin)
       (\<lambda>_.
         bind_io
           (try_except
              (bind_io (wakeup T) (\<lambda>_.
               bind_io (get_firmware_version T) (\<lambda>_. return_io True)))
              (\<lambda>e. e = BusyError \<or> is_RuntimeError e)
              (return_io False))
           (\<lambda>done.
             if done then return_io \<lparr>debug = dbg\<rparr>
             else bind_io (get_firmware_version T) (\<lambda>_. return_io \<lparr>debug = dbg\<rparr>)))"

section \<open>Observing the transport\<close>

text \<open>
  To state which transport calls an operation makes, and in which order, a transport is
  wrapped so that every call is appended to a log kept beside the device state.
\<close>

datatype event =
    Reset int
  | ReadData nat
  | WriteData bytes
  | WaitReady rat
  | Wakeup

definition log_call :: "event \<Rightarrow> ('s, 'a) io \<Rightarrow> ('s \<times> event list, 'a) io" where
  "log_call ev m = (\<lambda>(s, l). case m s of (r, s') \<Rightarrow> (r, (s', l @ [ev])))"

definition logged :: "'s transport \<Rightarrow> ('s \<times> event list) transport" where
  "logged T =
     \<lparr> reset = (\<lambda>pin. log_call (Reset pin) (reset T pin)),
       read_data = (\<lambda>n. log_call (ReadData n) (read_data T n)),
       write_data = (\<lambda>bs. log_call (WriteData bs) (write_data T bs)),
       wait_ready = (\<lambda>t. log_call (WaitReady t) (wait_ready T t)),
       wakeup = log_call Wakeup (wakeup T) \<rparr>"

text \<open>
  A synthetic transport for concrete runs: each call takes the next scripted outcome of
  its kind. When a script is exhausted, writes and wake pulses succeed, the device is
  never ready, and reads return no bytes.
\<close>

record script =
  write_results :: "(exn + unit) list"
  ready_results :: "(exn + bool) list"
  read_results :: "(exn + bytes) list"
  wake_results :: "(exn + unit) list"

definition scripted :: "script transport" where
  "scripted =
     \<lparr> reset = (\<lambda>pin s. (Inr (), s)),
       read_data = (\<lambda>n s. case read_results s of
                            [] \<Rightarrow> (Inr [], s)
                          | r # rs \<Rightarrow> (r, s\<lparr>read_results := rs\<rparr>)),
       write_data = (\<lambda>bs s. case write_results s of
                            [] \<Rightarrow> (Inr (), s)
                          | r # rs \<Rightarrow> (r, s\<lparr>write_results := rs\<rparr>)),
       wait_ready = (\<lambda>t s. case ready_results s of
                            [] \<Rightarrow> (Inr False, s)
                          | r # rs \<Rightarrow> (r, s\<lparr>ready_results := rs\<rparr>)),
       wakeup = (\<lambda>s. case wake_results s of
                            [] \<Rightarrow> (Inr (), s)
                          | r # rs \<Rightarrow> (r, s\<lparr>wake_results := rs\<rparr>)) \<rparr>"

section \<open>Properties as the specification words them\<close>

text \<open>
  The checksum formula of the specification: the two's-complement low byte of the sum of
  the three framing-prefix bytes and all payload bytes.
\<close>

definition spec_checksum :: "bytes \<Rightarrow> int" where
  "spec_checksum p = (256 - ((0x00 + 0x00 + 0xFF + py_sum p) mod 256)) mod 256"

text \<open>The two checksum failures of \<open>_read_frame\<close>, as a kind of outcome.\<close>

definition is_checksum_mismatch :: "exn + bytes \<Rightarrow> bool" where
  "is_checksum_mismatch r =
     (case r of
        Inl (RuntimeError msg args) \<Rightarrow>
          msg = ''Response length checksum did not match length!'' \<or>
          msg = ''Response checksum did not match expected value: ''
      | _ \<Rightarrow> False)"

text \<open>The frame data that \<open>call_function\<close> hands to \<open>_write_frame\<close>.\<close>

definition command_data :: "int \<Rightarrow> bytes \<Rightarrow> bytes" where
  "command_data command params = HOSTTOPN532 # word_of_int (command AND 0xFF) # params"

text \<open>Scripts for the synthetic transport.\<close>

definition idle :: script where
  "idle = \<lparr>write_results = [], ready_results = [], read_results = [], wake_results = []\<rparr>"

text \<open>
  \<open>card_script\<close>: the device acknowledges and answers InListPassiveTarget with one
  target whose UID is \<open>DE AD BE EF\<close>. \<open>firmware_script\<close>: the first readiness poll
  times out, then the device acknowledges and answers GetFirmwareVersion.
  \<open>absent_script\<close>: two readiness polls time out. \<open>bad_ack_script\<close>: the six bytes read
  for the acknowledgment differ from the literal in the last bit.
\<close>

definition card_script :: script where
  "card_script = idle\<lparr>ready_results := [Inr True, Inr True],
       read_results := [Inr ACK,
         Inr (build_frame [0xD5, 0x4B, 0x01, 0x01, 0x00, 0x04, 0x08, 0x04, 0xDE, 0xAD, 0xBE, 0xEF])]\<rparr>"

definition firmware_script :: script where
  "firmware_script = idle\<lparr>ready_results := [Inr False, Inr True, Inr True],
       read_results := [Inr ACK, Inr (build_frame [0xD5, 0x03, 0x32, 0x01, 0x06, 0x07])]\<rparr>"

definition absent_script :: script where
  "absent_script = idle\<lparr>ready_results := [Inr False, Inr False]\<rparr>"

definition bad_ack_script :: script where
  "bad_ack_script = idle\<lparr>ready_results := [Inr True],
       read_results := [Inr [0x00, 0x00, 0xFF, 0x00, 0xFF, 0x01]]\<rparr>"

section \<open>Arithmetic of bytes and Python integers\<close>

lemma int_and_ff_mod: "(k::int) AND 0xFF = k mod 256"
proof -
  have "k AND 0xFF = take_bit 8 k"
    by (simp add: take_bit_eq_mask mask_eq_exp_minus_1)
  then show ?thesis
    by (simp add: take_bit_eq_mod)
qed

lemma word8_and_ff: "(word_of_int (k AND 0xFF) :: byte) = word_of_int k"
proof -
  have "k AND 0xFF = take_bit 8 k"
    by (simp add: take_bit_eq_mask mask_eq_exp_minus_1)
  then show ?thesis
    by (simp add: word_of_int_eq_iff)
qed

lemma word_of_int_NOT: "(word_of_int (NOT k) :: byte) = - word_of_int k - 1"
  by (simp add: not_int_def)

lemma word_of_py_sum: "(word_of_int (py_sum xs) :: byte) = sum_list xs"
  by (induction xs) (simp_all add: py_sum_def)

lemma and_ff_eq_0_iff: "((k::int) AND 0xFF = 0) \<longleftrightarrow> (word_of_int k :: byte) = 0"
  by (simp add: int_and_ff_mod word_of_int_eq_0_iff mod_eq_0_iff_dvd)

lemma py_sum_and_ff_iff: "(py_sum xs AND 0xFF = 0) \<longleftrightarrow> sum_list xs = (0::byte)"
  by (simp add: and_ff_eq_0_iff word_of_py_sum)

lemma uint_add_and_ff_iff: "((uint (a::byte) + uint b) AND 0xFF = 0) \<longleftrightarrow> a + b = 0"
  by (simp add: and_ff_eq_0_iff)

lemma unat_len: "n < 256 \<Longrightarrow> unat (of_nat n :: byte) = n"
  by (simp add: unat_of_nat)

lemma sum_list_update_word:
  "j < length xs \<Longrightarrow> sum_list (xs[j := v]) = sum_list xs - xs ! j + (v::byte)"
proof (induction xs arbitrary: j)
  case Nil
  then show ?case by simp
next
  case (Cons x xs)
  then show ?case by (cases j) simp_all
qed

section \<open>Layout of the frame and behaviour of the parser\<close>

lemma replicate_split7: "replicate (n + 7) (0::byte) = [0, 0, 0, 0, 0] @ replicate n 0 @ [0, 0]"
proof -
  have "n + 7 = 5 + (n + 2)" by simp
  then have "replicate (n + 7) (0::byte) = replicate 5 0 @ replicate n 0 @ replicate 2 0"
    by (simp only: replicate_add)
  then show ?thesis by (simp add: numeral_eq_Suc)
qed

lemma build_frame_eq:
  "build_frame data =
     [0x00, 0x00, 0xFF, of_nat (length data), - of_nat (length data)]
       @ data @ [- sum_list data, 0x00]"
proof -
  have n: "nat (int (length data) + 7) = length data + 7" by simp
  show ?thesis
    unfolding build_frame_def Let_def n replicate_split7
    by (simp add: word8_and_ff word_of_int_NOT word_of_py_sum slice_def PREAMBLE_def
        STARTCODE1_def STARTCODE2_def POSTAMBLE_def list_update_append)
qed

lemma length_build_frame: "length (build_frame data) = length data + 7"
  by (simp add: build_frame_eq)

lemma skip_zeros_std: "skip_zeros (0 # 0 # 0xFF # rest) 0 = Inr 2"
proof -
  have "skip_zeros (0 # 0 # 0xFF # rest) 2 = Inr 2"
    by (subst skip_zeros.simps) simp
  then have "skip_zeros (0 # 0 # 0xFF # rest) (Suc 0) = Inr 2"
    by (subst skip_zeros.simps) (simp add: numeral_2_eq_2)
  then show ?thesis
    by (subst skip_zeros.simps) simp
qed

lemma parse_frame_std:
  "parse_frame (0 # 0 # 0xFF # l # c # rest) =
     (if l + c \<noteq> 0
      then Inl (RuntimeError ''Response length checksum did not match length!'' [])
      else if sum_list (take (unat l + 1) rest) \<noteq> 0
      then Inl (RuntimeError ''Response checksum did not match expected value: ''
                 [py_sum (take (unat l + 1) rest) AND 0xFF])
      else Inr (take (unat l) rest))"
  unfolding parse_frame_def skip_zeros_std
  by (simp add: getitem_def slice_def Let_def uint_add_and_ff_iff py_sum_and_ff_iff
      numeral_eq_Suc)

lemma parse_build: "length p < 256 \<Longrightarrow> parse_frame (build_frame p) = Inr p"
  by (simp add: build_frame_eq parse_frame_std unat_len)

lemmas io_defs = bind_io_def return_io_def raise_def lift_def try_except_def

lemma scripted_simps:
  "reset scripted pin s = (Inr (), s)"
  "read_data scripted n s =
     (case read_results s of [] \<Rightarrow> (Inr [], s) | r # rs \<Rightarrow> (r, s\<lparr>read_results := rs\<rparr>))"
  "write_data scripted bs s =
     (case write_results s of [] \<Rightarrow> (Inr (), s) | r # rs \<Rightarrow> (r, s\<lparr>write_results := rs\<rparr>))"
  "wait_ready scripted t s =
     (case ready_results s of [] \<Rightarrow> (Inr False, s) | r # rs \<Rightarrow> (r, s\<lparr>ready_results := rs\<rparr>))"
  "wakeup scripted s =
     (case wake_results s of [] \<Rightarrow> (Inr (), s) | r # rs \<Rightarrow> (r, s\<lparr>wake_results := rs\<rparr>))"
  by (simp_all add: scripted_def)

section \<open>The claims\<close>

text \<open>
  C1. For every payload \<open>p\<close> with \<open>1 < length p < 255\<close>, \<open>_write_frame\<close> hands the
  transport the frame \<open>build_frame p\<close> of \<open>length p + 7\<close> bytes, and when the transport
  returns that frame to \<open>_read_frame (length p)\<close>, the call succeeds and returns exactly
  \<open>p\<close>.
\<close>

theorem encode_decode_roundtrip:
  assumes "1 < length p" and "length p < 255"
    and "read_data T (length p + 7) s = (Inr (build_frame p), s')"
  shows "write_frame T p s0 = write_data T (build_frame p) s0 \<and>
         length (build_frame p) = length p + 7 \<and>
         parse_frame (build_frame p) = Inr p \<and>
         read_frame T (length p) s = (Inr p, s')"
  using assms
  by (simp add: write_frame_def read_frame_def io_defs parse_build length_build_frame)

theorem encode_decode_roundtrip_witness:
  "1 < length [0xD4, 0x02 :: byte] \<and> length [0xD4, 0x02 :: byte] < 255 \<and>
   build_frame [0xD4, 0x02] = [0x00, 0x00, 0xFF, 0x02, 0xFE, 0xD4, 0x02, 0x2A, 0x00] \<and>
   read_frame scripted (length [0xD4, 0x02 :: byte])
       (idle\<lparr>read_results := [Inr (build_frame [0xD4, 0x02])]\<rparr>)
     = (Inr [0xD4, 0x02], idle)"
  using encode_decode_roundtrip [of "[0xD4, 0x02]" scripted
      "idle\<lparr>read_results := [Inr (build_frame [0xD4, 0x02])]\<rparr>" idle idle]
  by (simp add: scripted_simps idle_def build_frame_eq)

text \<open>
  C2 (as claimed). Constructing the error value from a status byte never fails, an
  unmapped byte giving an "unrecognized status" variant. The code has no such variant:
  for the unmapped byte \<open>0x08\<close> the constructor itself raises \<open>KeyError\<close>.
\<close>

theorem classify_counterexample:
  "PN532Error_init 0x08 = Inl (KeyError 0x08)"
  by (simp add: PN532Error_init_def PN532_ERRORS_def)


lemma distinct_codes: "distinct (map fst PN532_ERRORS)"
  by (simp add: PN532_ERRORS_def)


text \<open>
  C2 (amended). \<open>PN532Error.__init__\<close> is a lookup in a table of 28 distinct codes: for
  a code of the table it yields the error value carrying that code and its message, and
  for every other byte it raises \<open>KeyError\<close>.
\<close>

theorem classify_lookup:
  "(\<forall>msg. (b, msg) \<in> set PN532_ERRORS \<longrightarrow> PN532Error_init b = Inr (PN532Error b msg)) \<and>
   (b \<notin> fst ` set PN532_ERRORS \<longrightarrow> PN532Error_init b = Inl (KeyError b)) \<and>
   length PN532_ERRORS = 28 \<and> distinct (map fst PN532_ERRORS)"
proof (intro conjI allI impI)
  fix msg assume "(b, msg) \<in> set PN532_ERRORS"
  then have "map_of PN532_ERRORS b = Some msg"
    using distinct_codes by (rule_tac map_of_is_SomeI)
  then show "PN532Error_init b = Inr (PN532Error b msg)"
    by (simp add: PN532Error_init_def)
next
  assume "b \<notin> fst ` set PN532_ERRORS"
  then have "map_of PN532_ERRORS b = None"
    by (simp add: map_of_eq_None_iff)
  then show "PN532Error_init b = Inl (KeyError b)"
    by (simp add: PN532Error_init_def)
next
  show "length PN532_ERRORS = 28" by (simp add: PN532_ERRORS_def)
next
  show "distinct (map fst PN532_ERRORS)" by (rule distinct_codes)
qed

theorem classify_lookup_witness:
  "(0x14, ''PN532 ERROR MIFARE_AUTH'') \<in> set PN532_ERRORS \<and>
   PN532Error_init 0x14 = Inr (PN532Error 0x14 ''PN532 ERROR MIFARE_AUTH'') \<and>
   0x00 \<notin> fst ` set PN532_ERRORS \<and>
   PN532Error_init 0x00 = Inl (KeyError 0x00)"
proof -
  have a: "(0x14, ''PN532 ERROR MIFARE_AUTH'') \<in> set PN532_ERRORS"
    by (simp add: PN532_ERRORS_def)
  have b: "0x00 \<notin> fst ` set PN532_ERRORS"
    by (simp add: PN532_ERRORS_def)
  from a classify_lookup [of "0x14"]
  have c: "PN532Error_init 0x14 = Inr (PN532Error 0x14 ''PN532 ERROR MIFARE_AUTH'')"
    by blast
  from b classify_lookup [of "0x00"]
  have d: "PN532Error_init 0x00 = Inl (KeyError 0x00)"
    by blast
  from a b c d show ?thesis by blast
qed

text \<open>
  C3 (as claimed). The checksum byte is the two's complement of the sum of the three
  prefix bytes and the payload bytes. For the payload \<open>D4 02\<close> the code stores 42, the
  claimed formula gives 43.
\<close>

theorem checksum_counterexample:
  "uint (build_frame [0xD4, 0x02] ! (length [0xD4, 0x02 :: byte] + 5)) = 42 \<and>
   spec_checksum [0xD4, 0x02] = 43"
  by (simp add: build_frame_eq spec_checksum_def py_sum_def)


lemma neg_mod_256_a: "(- S) mod 256 = (256 - S mod 256) mod (256::int)"
  by (simp add: mod_minus_eq)

lemma neg_mod_256_b: "(- S) mod 256 = 255 - (255 + S) mod (256::int)"
proof -
  have r: "0 \<le> 255 - (255 + S) mod 256" "255 - (255 + S) mod 256 < 256"
    using pos_mod_bound [of 256 "255 + S"] pos_mod_sign [of 256 "255 + S"] by simp_all
  have "255 - (255 + S) mod 256 = (255 - (255 + S) mod 256) mod 256"
    using r by simp
  also have "\<dots> = (255 - (255 + S)) mod 256"
    by (simp only: mod_diff_right_eq)
  also have "\<dots> = (- S) mod 256" by simp
  finally show ?thesis by simp
qed

lemma neg_mod_256_c: "(S + (- S) mod 256) mod 256 = (0::int)"
  by (simp add: mod_add_right_eq)

lemma checksum_byte: "build_frame p ! (length p + 5) = - sum_list p"
  by (simp add: build_frame_eq nth_append numeral_eq_Suc)

lemma uint_neg_sum: "uint (- sum_list p :: byte) = (- py_sum p) mod 256"
proof -
  have "(- sum_list p :: byte) = word_of_int (- py_sum p)"
    by (simp add: word_of_py_sum)
  then show ?thesis
    by (simp only: uint_word_of_int_eq take_bit_eq_mod) simp
qed


text \<open>
  C3 (amended). For every payload \<open>p\<close> with \<open>1 < length p < 255\<close>, the byte that
  \<open>_write_frame\<close> places second-to-last is the two's-complement low byte of the sum of
  the payload bytes alone, which is the one's-complement low byte of the sum of the
  three prefix bytes and the payload bytes; payload and checksum byte sum to zero
  modulo 256.
\<close>

theorem checksum_byte_value:
  assumes "1 < length p" and "length p < 255"
  shows "uint (build_frame p ! (length p + 5)) = (256 - py_sum p mod 256) mod 256 \<and>
         uint (build_frame p ! (length p + 5)) = 255 - (0x00 + 0x00 + 0xFF + py_sum p) mod 256 \<and>
         (py_sum p + uint (build_frame p ! (length p + 5))) mod 256 = 0"
proof -
  have u: "uint (build_frame p ! (length p + 5)) = (- py_sum p) mod 256"
    by (simp add: checksum_byte uint_neg_sum)
  have a: "(- py_sum p) mod 256 = (256 - py_sum p mod 256) mod 256"
    by (rule neg_mod_256_a)
  have b: "(- py_sum p) mod 256 = 255 - (0x00 + 0x00 + 0xFF + py_sum p) mod 256"
    using neg_mod_256_b [of "py_sum p"] by simp
  have c: "(py_sum p + (- py_sum p) mod 256) mod 256 = 0"
    by (rule neg_mod_256_c)
  show ?thesis
    unfolding u using a b c by (intro conjI) 
qed

theorem checksum_byte_value_witness:
  "1 < length [0xD4, 0x02 :: byte] \<and> length [0xD4, 0x02 :: byte] < 255 \<and>
   uint (build_frame [0xD4, 0x02] ! (length [0xD4, 0x02 :: byte] + 5)) = 42 \<and>
   (256 - py_sum [0xD4, 0x02] mod 256) mod 256 = 42 \<and>
   255 - (0x00 + 0x00 + 0xFF + py_sum [0xD4, 0x02]) mod 256 = 42"
  using checksum_byte_value [of "[0xD4, 0x02]"]
  by (simp add: py_sum_def)

lemma skip_zeros_Nil: "skip_zeros [] 0 = Inl IndexError"
  by (subst skip_zeros.simps) simp

lemma parse_frame_Nil: "parse_frame [] = Inl IndexError"
  by (simp add: parse_frame_def skip_zeros_Nil)

lemma parse_frame_cut: "parse_frame [0x00, 0x00, 0xFF, 0x02] = Inl IndexError"
  by (simp add: parse_frame_def skip_zeros_std getitem_def)


text \<open>
  C4. \<open>_read_frame\<close> is claimed to end, on every buffer, with a payload or one of its
  parse failures, without an out-of-range access. On the empty buffer the first loop
  test \<open>response[0]\<close> is out of range, and on a buffer that ends with the length byte
  the read of the length checksum \<open>response[offset+1]\<close> is: both raise \<open>IndexError\<close>.
\<close>

theorem read_frame_index_error:
  "parse_frame [] = Inl IndexError \<and>
   parse_frame [0x00, 0x00, 0xFF, 0x02] = Inl IndexError \<and>
   read_frame scripted 6 idle = (Inl IndexError, idle)"
  by (simp add: parse_frame_Nil parse_frame_cut read_frame_def io_defs scripted_simps idle_def)

lemma frame_update_len:
  "(build_frame p)[3 := v] =
     [0x00, 0x00, 0xFF, v, - of_nat (length p)] @ p @ [- sum_list p, 0x00]"
  by (simp add: build_frame_eq numeral_eq_Suc)

lemma frame_update_lcs:
  "(build_frame p)[4 := v] =
     [0x00, 0x00, 0xFF, of_nat (length p), v] @ p @ [- sum_list p, 0x00]"
  by (simp add: build_frame_eq numeral_eq_Suc)

lemma frame_update_payload:
  "j < length p \<Longrightarrow> (build_frame p)[5 + j := v] =
     [0x00, 0x00, 0xFF, of_nat (length p), - of_nat (length p)] @ p[j := v] @ [- sum_list p, 0x00]"
  by (simp add: build_frame_eq numeral_eq_Suc list_update_append)

lemma frame_update_dcs:
  "(build_frame p)[5 + length p := v] =
     [0x00, 0x00, 0xFF, of_nat (length p), - of_nat (length p)] @ p @ [v, 0x00]"
  by (simp add: build_frame_eq numeral_eq_Suc list_update_append)

lemma frame_update_post:
  "(build_frame p)[6 + length p := v] =
     [0x00, 0x00, 0xFF, of_nat (length p), - of_nat (length p)] @ p @ [- sum_list p, v]"
  by (simp add: build_frame_eq numeral_eq_Suc list_update_append)

lemma frame_nth:
  "build_frame p ! 3 = of_nat (length p)"
  "build_frame p ! 4 = - of_nat (length p)"
  "j < length p \<Longrightarrow> build_frame p ! (5 + j) = p ! j"
  "build_frame p ! (5 + length p) = - sum_list p"
  "build_frame p ! (6 + length p) = 0"
  by (simp_all add: build_frame_eq numeral_eq_Suc nth_append)

lemma flip_len:
  assumes "v \<noteq> build_frame p ! 3"
  shows "parse_frame ((build_frame p)[3 := v]) =
           Inl (RuntimeError ''Response length checksum did not match length!'' [])"
proof -
  from assms have "v - of_nat (length p) \<noteq> 0" by (simp add: frame_nth)
  then show ?thesis by (simp add: frame_update_len parse_frame_std)
qed

lemma flip_lcs:
  assumes "v \<noteq> build_frame p ! 4"
  shows "parse_frame ((build_frame p)[4 := v]) =
           Inl (RuntimeError ''Response length checksum did not match length!'' [])"
proof -
  from assms have "of_nat (length p) + v \<noteq> 0"
    by (simp add: frame_nth) (metis add.commute add.inverse_unique)
  then show ?thesis by (simp add: frame_update_lcs parse_frame_std)
qed

lemma flip_payload:
  assumes "length p < 256" and "j < length p" and "v \<noteq> build_frame p ! (5 + j)"
  shows "\<exists>c. c \<noteq> 0 \<and> parse_frame ((build_frame p)[5 + j := v]) =
           Inl (RuntimeError ''Response checksum did not match expected value: '' [c])"
proof -
  let ?body = "p[j := v] @ [- sum_list p, 0x00]"
  have t: "take (length p + 1) ?body = p[j := v] @ [- sum_list p]" by simp
  from assms have "v \<noteq> p ! j" by (simp add: frame_nth)
  then have ne: "sum_list (p[j := v] @ [- sum_list p]) \<noteq> 0"
    using assms(2) by (simp add: sum_list_update_word)
  then have c: "py_sum (p[j := v] @ [- sum_list p]) AND 0xFF \<noteq> 0"
    by (simp only: py_sum_and_ff_iff not_False_eq_True)
  have "parse_frame ((build_frame p)[5 + j := v]) =
          Inl (RuntimeError ''Response checksum did not match expected value: ''
                [py_sum (p[j := v] @ [- sum_list p]) AND 0xFF])"
    using assms(1,2) ne
    by (simp only: frame_update_payload parse_frame_std append.simps unat_len t) simp
  with c show ?thesis by blast
qed

lemma flip_dcs:
  assumes "length p < 256" and "v \<noteq> build_frame p ! (5 + length p)"
  shows "\<exists>c. c \<noteq> 0 \<and> parse_frame ((build_frame p)[5 + length p := v]) =
           Inl (RuntimeError ''Response checksum did not match expected value: '' [c])"
proof -
  let ?body = "p @ [v, 0x00]"
  have t: "take (length p + 1) ?body = p @ [v]" by simp
  from assms have "v \<noteq> - sum_list p" by (simp add: frame_nth)
  then have ne: "sum_list (p @ [v]) \<noteq> 0"
    by (simp add: add_eq_0_iff)
  then have c: "py_sum (p @ [v]) AND 0xFF \<noteq> 0"
    by (simp only: py_sum_and_ff_iff not_False_eq_True)
  have "parse_frame ((build_frame p)[5 + length p := v]) =
          Inl (RuntimeError ''Response checksum did not match expected value: ''
                [py_sum (p @ [v]) AND 0xFF])"
    using assms(1) ne
    by (simp only: frame_update_dcs parse_frame_std append.simps unat_len t) simp
  with c show ?thesis by blast
qed

lemma flip_postamble:
  assumes "length p < 256"
  shows "parse_frame ((build_frame p)[6 + length p := v]) = Inr p"
  using assms by (simp add: frame_update_post parse_frame_std unat_len)


lemma skip_zeros_prefix:
  assumes "x \<noteq> 0" and "k \<le> n"
  shows "skip_zeros (replicate n 0 @ x # rest) k = Inr n"
  using assms(2)
proof (induction "n - k" arbitrary: k)
  case 0
  then have "k = n" by simp
  with assms(1) show ?case
    by (subst skip_zeros.simps) (simp add: nth_append)
next
  case (Suc d)
  then have lt: "k < n" and d: "d = n - (k + 1)" and le: "k + 1 \<le> n" by simp_all
  from d le have "skip_zeros (replicate n 0 @ x # rest) (k + 1) = Inr n"
    by (rule Suc.hyps(1))
  with lt show ?case
    by (subst skip_zeros.simps) (simp add: nth_append)
qed

lemma skip_zeros_2: "x \<noteq> 0 \<Longrightarrow> skip_zeros (0 # 0 # x # rest) 0 = Inr 2"
  using skip_zeros_prefix [of x 0 2 rest] by (simp add: numeral_eq_Suc)

lemma skip_zeros_3: "x \<noteq> 0 \<Longrightarrow> skip_zeros (0 # 0 # 0 # x # rest) 0 = Inr 3"
  using skip_zeros_prefix [of x 0 3 rest] by (simp add: numeral_eq_Suc)

lemma frame_update_start:
  "(build_frame p)[2 := v] =
     0x00 # 0x00 # v # of_nat (length p) # (- of_nat (length p) # p @ [- sum_list p, 0x00])"
  by (simp add: build_frame_eq numeral_eq_Suc)

lemma len_byte_ne:
  assumes "0 < n" and "n < 255"
  shows "(of_nat n :: byte) \<noteq> 0" and "(of_nat n :: byte) \<noteq> 0xFF"
proof -
  from assms have u: "unat (of_nat n :: byte) = n" by (simp add: unat_len)
  show "(of_nat n :: byte) \<noteq> 0"
  proof
    assume "(of_nat n :: byte) = 0"
    then have "unat (of_nat n :: byte) = 0" by simp
    with u assms show False by simp
  qed
  show "(of_nat n :: byte) \<noteq> 0xFF"
  proof
    assume "(of_nat n :: byte) = 0xFF"
    then have "unat (of_nat n :: byte) = 255" by simp
    with u assms show False by simp
  qed
qed

lemma flip_start:
  assumes "0 < length p" and "length p < 255" and "v \<noteq> 0xFF"
  shows "parse_frame ((build_frame p)[2 := v]) =
           Inl (RuntimeError ''Response frame preamble does not contain 0x00FF!'' [])"
proof (cases "v = 0")
  case True
  have l: "(of_nat (length p) :: byte) \<noteq> 0" "(of_nat (length p) :: byte) \<noteq> 0xFF"
    using assms(1,2) by (simp_all add: len_byte_ne)
  show ?thesis
    unfolding frame_update_start True parse_frame_def skip_zeros_3 [OF l(1)]
    using l(2) by (simp add: getitem_def numeral_eq_Suc)
next
  case False
  show ?thesis
    unfolding frame_update_start parse_frame_def skip_zeros_2 [OF False]
    using assms(3) by (simp add: getitem_def numeral_eq_Suc)
qed


lemma frame_nth_2: "build_frame p ! 2 = 0xFF"
  by (simp add: build_frame_eq numeral_eq_Suc)


text \<open>
  C5 (as claimed). Changing any single byte of a valid frame outside the preamble
  padding makes \<open>_read_frame\<close> fail with a checksum mismatch. The postamble is such a
  byte, and \<open>_read_frame\<close> never looks at it: the frame of \<open>D4 02\<close> with its last byte
  changed from \<open>00\<close> to \<open>01\<close> still decodes to \<open>D4 02\<close>.
\<close>

theorem single_byte_change_counterexample:
  "length (build_frame [0xD4, 0x02]) = 9 \<and>
   build_frame [0xD4, 0x02] ! 8 = 0x00 \<and>
   parse_frame ((build_frame [0xD4, 0x02])[8 := 0x01]) = Inr [0xD4, 0x02] \<and>
   \<not> is_checksum_mismatch (parse_frame ((build_frame [0xD4, 0x02])[8 := 0x01]))"
  by (simp add: build_frame_eq parse_frame_std is_checksum_mismatch_def)


text \<open>
  C5 (amended). In the frame of a payload \<open>p\<close> with \<open>1 < length p < 255\<close>, changing
  one byte to a different value has this effect on \<open>_read_frame\<close>: at the length byte
  or the length checksum (positions 3 and 4) it fails with the length-checksum mismatch;
  at a payload byte or the data checksum (positions 5 to \<open>length p + 5\<close>) it fails with
  the payload-checksum mismatch; at the start code \<open>0xFF\<close> (position 2) it fails with
  the malformed-preamble error; at the postamble (position \<open>length p + 6\<close>) it still
  returns \<open>p\<close>. So the failure is a checksum mismatch exactly for positions 3 to
  \<open>length p + 5\<close>.
\<close>

theorem single_byte_change:
  assumes "1 < length p" and "length p < 255"
    and "2 \<le> i" and "i < length p + 7"
    and "v \<noteq> build_frame p ! i"
  shows "(i = 2 \<longrightarrow> parse_frame ((build_frame p)[i := v]) =
            Inl (RuntimeError ''Response frame preamble does not contain 0x00FF!'' [])) \<and>
         (i = 3 \<or> i = 4 \<longrightarrow> parse_frame ((build_frame p)[i := v]) =
            Inl (RuntimeError ''Response length checksum did not match length!'' [])) \<and>
         (5 \<le> i \<and> i < length p + 6 \<longrightarrow>
            (\<exists>c. c \<noteq> 0 \<and> parse_frame ((build_frame p)[i := v]) =
               Inl (RuntimeError ''Response checksum did not match expected value: '' [c]))) \<and>
         (i = length p + 6 \<longrightarrow> parse_frame ((build_frame p)[i := v]) = Inr p) \<and>
         (is_checksum_mismatch (parse_frame ((build_frame p)[i := v]))
            \<longleftrightarrow> 3 \<le> i \<and> i < length p + 6)"
proof -
  from assms(2) have len: "length p < 256" by simp
  consider (start) "i = 2" | (len) "i = 3" | (lcs) "i = 4"
    | (payload) j where "i = 5 + j" "j < length p"
    | (dcs) "i = 5 + length p" | (post) "i = 6 + length p"
  proof -
    have "i = 2 \<or> i = 3 \<or> i = 4 \<or> (5 \<le> i \<and> i - 5 < length p) \<or> i = 5 + length p
            \<or> i = 6 + length p"
      using assms(3,4) by arith
    then show ?thesis
      using start len lcs payload [of "i - 5"] dcs post by auto
  qed
  then show ?thesis
  proof cases
    case start
    with assms(5) have "v \<noteq> 0xFF" by (simp add: frame_nth_2)
    moreover from assms(1) have "0 < length p" by linarith
    ultimately have "parse_frame ((build_frame p)[2 := v]) =
        Inl (RuntimeError ''Response frame preamble does not contain 0x00FF!'' [])"
      using assms(2) by (intro flip_start)
    with start show ?thesis by (simp add: is_checksum_mismatch_def)
  next
    case len
    with assms(5) have "parse_frame ((build_frame p)[3 := v]) =
        Inl (RuntimeError ''Response length checksum did not match length!'' [])"
      by (intro flip_len) simp
    with len show ?thesis by (simp add: is_checksum_mismatch_def)
  next
    case lcs
    with assms(5) have "parse_frame ((build_frame p)[4 := v]) =
        Inl (RuntimeError ''Response length checksum did not match length!'' [])"
      by (intro flip_lcs) simp
    with lcs show ?thesis by (simp add: is_checksum_mismatch_def)
  next
    case payload
    with assms(5) len obtain c where c: "c \<noteq> 0"
      "parse_frame ((build_frame p)[5 + j := v]) =
         Inl (RuntimeError ''Response checksum did not match expected value: '' [c])"
      using flip_payload [of p j v] by auto
    with payload show ?thesis by (simp add: is_checksum_mismatch_def)
  next
    case dcs
    with assms(5) len obtain c where c: "c \<noteq> 0"
      "parse_frame ((build_frame p)[5 + length p := v]) =
         Inl (RuntimeError ''Response checksum did not match expected value: '' [c])"
      using flip_dcs [of p v] by auto
    with dcs show ?thesis by (simp add: is_checksum_mismatch_def)
  next
    case post
    from len have "parse_frame ((build_frame p)[6 + length p := v]) = Inr p"
      by (rule flip_postamble)
    with post show ?thesis by (simp add: is_checksum_mismatch_def)
  qed
qed


theorem single_byte_change_witness:
  "1 < length [0xD4, 0x02 :: byte] \<and> length [0xD4, 0x02 :: byte] < 255 \<and>
   (2::nat) \<le> 6 \<and> 6 < length [0xD4, 0x02 :: byte] + 7 \<and>
   0x03 \<noteq> build_frame [0xD4, 0x02] ! 6 \<and>
   is_checksum_mismatch (parse_frame ((build_frame [0xD4, 0x02])[6 := 0x03]))"
  using single_byte_change [of "[0xD4, 0x02]" 6 "0x03"]
  by (simp add: build_frame_eq)

section \<open>Behaviour of the dispatcher\<close>

lemmas run_simps = call_function_def command_data_def write_frame_def read_frame_def io_defs
  scripted_simps idle_def build_frame_eq parse_frame_std int_and_ff_mod getitem_def ACK_def
  HOSTTOPN532_def PN532TOHOST_def

lemma logged_simps:
  "write_data (logged T) bs (s, l) =
     (case write_data T bs s of (r, s') \<Rightarrow> (r, (s', l @ [WriteData bs])))"
  "read_data (logged T) n (s, l) =
     (case read_data T n s of (r, s') \<Rightarrow> (r, (s', l @ [ReadData n])))"
  "wait_ready (logged T) t (s, l) =
     (case wait_ready T t s of (r, s') \<Rightarrow> (r, (s', l @ [WaitReady t])))"
  "wakeup (logged T) (s, l) = (case wakeup T s of (r, s') \<Rightarrow> (r, (s', l @ [Wakeup])))"
  "reset (logged T) pin (s, l) = (case reset T pin s of (r, s') \<Rightarrow> (r, (s', l @ [Reset pin])))"
  by (simp_all add: logged_def log_call_def)

lemma call_function_write_OSError:
  assumes "length params < 253"
    and "write_data T (build_frame (command_data command params)) s = (Inl OSError, s1)"
    and "wakeup T s1 = (Inr (), s2)"
  shows "call_function T command rl params timeout s = (Inr None, s2)"
  using assms
  by (simp add: call_function_def command_data_def write_frame_def io_defs)

lemma call_function_wakeup_raises:
  assumes "length params < 253"
    and "write_data T (build_frame (command_data command params)) s = (Inl OSError, s1)"
    and "wakeup T s1 = (Inl e, s2)"
  shows "call_function T command rl params timeout s = (Inl e, s2)"
  using assms
  by (simp add: call_function_def command_data_def write_frame_def io_defs)

lemma call_function_not_ready:
  assumes "length params < 253"
    and "write_data T (build_frame (command_data command params)) s = (Inr (), s1)"
    and "wait_ready T timeout s1 = (Inr False, s2)"
  shows "call_function T command rl params timeout s = (Inr None, s2)"
  using assms
  by (simp add: call_function_def command_data_def write_frame_def io_defs)

lemma call_function_bad_ack:
  assumes "length params < 253"
    and "write_data T (build_frame (command_data command params)) s = (Inr (), s1)"
    and "wait_ready T timeout s1 = (Inr True, s2)"
    and "read_data T 6 s2 = (Inr ack, s3)"
    and "ack \<noteq> ACK"
  shows "call_function T command rl params timeout s =
           (Inl (RuntimeError ''Did not receive expected ACK from PN532!'' []), s3)"
proof -
  have "length ACK = 6" by (simp add: ACK_def)
  with assms show ?thesis
    by (auto simp add: call_function_def command_data_def write_frame_def io_defs)
qed

text \<open>
  C6. In \<open>call_function\<close>, after the frame is written and the first readiness poll
  succeeds, the next transport call is a read of exactly 6 bytes; when the bytes read
  differ in any way from the literal \<open>00 00 FF 00 FF 00\<close>, the call raises the
  \<open>RuntimeError\<close> "Did not receive expected ACK from PN532!" and makes no further
  transport call. That outcome is an exception, not the result \<open>None\<close> that a
  readiness timeout gives.
\<close>

theorem ack_mismatch_is_fatal:
  assumes "length params < 253"
    and "write_data T (build_frame (command_data command params)) s = (Inr (), s1)"
    and "wait_ready T timeout s1 = (Inr True, s2)"
    and "read_data T 6 s2 = (Inr ack, s3)"
    and "ack \<noteq> ACK"
  shows "ACK = [0x00, 0x00, 0xFF, 0x00, 0xFF, 0x00] \<and>
         call_function T command rl params timeout s =
           (Inl (RuntimeError ''Did not receive expected ACK from PN532!'' []), s3) \<and>
         call_function (logged T) command rl params timeout (s, []) =
           (Inl (RuntimeError ''Did not receive expected ACK from PN532!'' []),
            (s3, [WriteData (build_frame (command_data command params)),
                  WaitReady timeout, ReadData 6])) \<and>
         fst (call_function T command rl params timeout s) \<noteq> Inr None"
proof -
  have t: "call_function T command rl params timeout s =
           (Inl (RuntimeError ''Did not receive expected ACK from PN532!'' []), s3)"
    using assms by (rule call_function_bad_ack)
  have l: "call_function (logged T) command rl params timeout (s, []) =
           (Inl (RuntimeError ''Did not receive expected ACK from PN532!'' []),
            (s3, [WriteData (build_frame (command_data command params)),
                  WaitReady timeout, ReadData 6]))"
  proof (rule call_function_bad_ack)
    show "length params < 253" by (rule assms)
    show "write_data (logged T) (build_frame (command_data command params)) (s, []) =
            (Inr (), (s1, [WriteData (build_frame (command_data command params))]))"
      by (simp add: logged_simps assms)
    show "wait_ready (logged T) timeout
            (s1, [WriteData (build_frame (command_data command params))]) =
            (Inr True, (s2, [WriteData (build_frame (command_data command params)),
                             WaitReady timeout]))"
      by (simp add: logged_simps assms)
    show "read_data (logged T) 6
            (s2, [WriteData (build_frame (command_data command params)), WaitReady timeout]) =
            (Inr ack, (s3, [WriteData (build_frame (command_data command params)),
                  WaitReady timeout, ReadData 6]))"
      by (simp add: logged_simps assms)
    show "ack \<noteq> ACK" by (rule assms)
  qed
  from t l show ?thesis by (simp add: ACK_def)
qed

theorem ack_mismatch_is_fatal_witness:
  "length ([] :: bytes) < 253 \<and>
   write_data scripted (build_frame (command_data 0x02 [])) bad_ack_script
     = (Inr (), bad_ack_script) \<and>
   wait_ready scripted (1 / 2) bad_ack_script
     = (Inr True, bad_ack_script\<lparr>ready_results := []\<rparr>) \<and>
   read_data scripted 6 (bad_ack_script\<lparr>ready_results := []\<rparr>)
     = (Inr [0x00, 0x00, 0xFF, 0x00, 0xFF, 0x01], idle) \<and>
   [0x00, 0x00, 0xFF, 0x00, 0xFF, 0x01] \<noteq> ACK \<and>
   call_function (logged scripted) 0x02 4 [] (1 / 2) (bad_ack_script, []) =
     (Inl (RuntimeError ''Did not receive expected ACK from PN532!'' []),
      (idle, [WriteData (build_frame (command_data 0x02 [])), WaitReady (1 / 2), ReadData 6]))"
proof -
  have a: "length ([] :: bytes) < 253" by simp
  have b: "write_data scripted (build_frame (command_data 0x02 [])) bad_ack_script
             = (Inr (), bad_ack_script)"
    by (simp add: scripted_simps idle_def bad_ack_script_def)
  have c: "wait_ready scripted (1 / 2) bad_ack_script
             = (Inr True, bad_ack_script\<lparr>ready_results := []\<rparr>)"
    by (simp add: scripted_simps idle_def bad_ack_script_def)
  have d: "read_data scripted 6 (bad_ack_script\<lparr>ready_results := []\<rparr>)
             = (Inr [0x00, 0x00, 0xFF, 0x00, 0xFF, 0x01], idle)"
    by (simp add: scripted_simps idle_def bad_ack_script_def)
  have e: "[0x00, 0x00, 0xFF, 0x00, 0xFF, 0x01] \<noteq> ACK"
    by (simp add: ACK_def)
  from ack_mismatch_is_fatal [OF a b c d e, of 4] a b c d e show ?thesis
    by blast
qed

text \<open>
  C7. In \<open>call_function\<close>, when \<open>_write_frame\<close> raises \<open>OSError\<close> (and the wake
  pulse itself returns), the call returns \<open>None\<close> and the transport has seen the failed
  write followed by exactly one wake pulse, and nothing else: no exception, no retry.
\<close>

theorem write_failure_wakes_once:
  assumes "length params < 253"
    and "write_data T (build_frame (command_data command params)) s = (Inl OSError, s1)"
    and "wakeup T s1 = (Inr (), s2)"
  shows "call_function T command rl params timeout s = (Inr None, s2) \<and>
         call_function (logged T) command rl params timeout (s, []) =
           (Inr None, (s2, [WriteData (build_frame (command_data command params)), Wakeup]))"
proof
  show "call_function T command rl params timeout s = (Inr None, s2)"
    using assms by (rule call_function_write_OSError)
next
  show "call_function (logged T) command rl params timeout (s, []) =
           (Inr None, (s2, [WriteData (build_frame (command_data command params)), Wakeup]))"
  proof (rule call_function_write_OSError)
    show "length params < 253" by (rule assms)
    show "write_data (logged T) (build_frame (command_data command params)) (s, []) =
            (Inl OSError, (s1, [WriteData (build_frame (command_data command params))]))"
      by (simp add: logged_simps assms)
    show "wakeup (logged T) (s1, [WriteData (build_frame (command_data command params))]) =
            (Inr (), (s2, [WriteData (build_frame (command_data command params)), Wakeup]))"
      by (simp add: logged_simps assms)
  qed
qed

theorem write_failure_wakes_once_witness:
  "length ([] :: bytes) < 253 \<and>
   write_data scripted (build_frame (command_data 0x02 [])) (idle\<lparr>write_results := [Inl OSError]\<rparr>)
     = (Inl OSError, idle) \<and>
   wakeup scripted idle = (Inr (), idle) \<and>
   call_function (logged scripted) 0x02 4 [] (1 / 2) (idle\<lparr>write_results := [Inl OSError]\<rparr>, [])
     = (Inr None, (idle, [WriteData [0x00, 0x00, 0xFF, 0x02, 0xFE, 0xD4, 0x02, 0x2A, 0x00], Wakeup]))"
proof -
  have a: "length ([] :: bytes) < 253" by simp
  have b: "write_data scripted (build_frame (command_data 0x02 []))
             (idle\<lparr>write_results := [Inl OSError]\<rparr>) = (Inl OSError, idle)"
    by (simp add: scripted_simps idle_def)
  have c: "wakeup scripted idle = (Inr (), idle)"
    by (simp add: scripted_simps idle_def)
  have d: "build_frame (command_data 0x02 []) = [0x00, 0x00, 0xFF, 0x02, 0xFE, 0xD4, 0x02, 0x2A, 0x00]"
    by (simp add: build_frame_eq command_data_def HOSTTOPN532_def int_and_ff_mod)
  from write_failure_wakes_once [OF a b c, of 4 "1 / 2"] a b c show ?thesis
    by (simp only: d)
qed

text \<open>
  C8. \<open>read_passive_target\<close> returns \<open>None\<close> whenever \<open>call_function\<close> returns
  \<open>None\<close> (or raises \<open>BusyError\<close>). When a response arrives it raises if byte 0 is not
  1 or if byte 5 is greater than 7, and it raises \<open>IndexError\<close> if one of the two bytes
  is missing; otherwise it returns the slice \<open>response[6:6+response[5]]\<close>.
\<close>

theorem read_passive_target_outcomes:
  assumes "call_function T COMMAND_INLISTPASSIVETARGET 19 [0x01, card_baud] timeout s = (res, s')"
  shows "(res = Inr None \<or> res = Inl BusyError \<longrightarrow>
            read_passive_target T card_baud timeout s = (Inr None, s')) \<and>
         (\<forall>r b. res = Inr (Some r) \<and> getitem r 0 = Inr b \<and> b \<noteq> 0x01 \<longrightarrow>
            read_passive_target T card_baud timeout s =
              (Inl (RuntimeError ''More than one card detected!'' []), s')) \<and>
         (\<forall>r n. res = Inr (Some r) \<and> getitem r 0 = Inr 0x01 \<and> getitem r 5 = Inr n \<and> 7 < uint n \<longrightarrow>
            read_passive_target T card_baud timeout s =
              (Inl (RuntimeError ''Found card with unexpectedly long UID!'' []), s')) \<and>
         (\<forall>r n. res = Inr (Some r) \<and> getitem r 5 = Inr n \<and> 7 < uint n \<longrightarrow>
            (\<exists>e. read_passive_target T card_baud timeout s = (Inl e, s'))) \<and>
         (\<forall>r n. res = Inr (Some r) \<and> getitem r 0 = Inr 0x01 \<and> getitem r 5 = Inr n \<and> uint n \<le> 7 \<longrightarrow>
            read_passive_target T card_baud timeout s =
              (Inr (Some (slice r 6 (6 + unat n))), s')) \<and>
         (\<forall>r. res = Inr (Some r) \<and>
              (getitem r 0 = Inl IndexError \<or> getitem r 0 = Inr 0x01 \<and> getitem r 5 = Inl IndexError) \<longrightarrow>
            read_passive_target T card_baud timeout s = (Inl IndexError, s')) \<and>
         (\<forall>e. res = Inl e \<and> e \<noteq> BusyError \<longrightarrow>
            read_passive_target T card_baud timeout s = (Inl e, s'))"
  using assms
  by (auto simp add: read_passive_target_def io_defs getitem_def split: if_splits)

lemma card_script_call:
  "call_function scripted COMMAND_INLISTPASSIVETARGET 19 [0x01, 0x00] 1 card_script =
     (Inr (Some [0x01, 0x01, 0x00, 0x04, 0x08, 0x04, 0xDE, 0xAD, 0xBE, 0xEF]), idle)"
  by (simp add: run_simps card_script_def COMMAND_INLISTPASSIVETARGET_def)

theorem read_passive_target_outcomes_witness:
  "call_function scripted COMMAND_INLISTPASSIVETARGET 19 [0x01, 0x00] 1 card_script =
     (Inr (Some [0x01, 0x01, 0x00, 0x04, 0x08, 0x04, 0xDE, 0xAD, 0xBE, 0xEF]), idle) \<and>
   read_passive_target scripted 0x00 1 card_script = (Inr (Some [0xDE, 0xAD, 0xBE, 0xEF]), idle)"
proof -
  have g: "getitem [0x01, 0x01, 0x00, 0x04, 0x08, 0x04, 0xDE, 0xAD, 0xBE, 0xEF :: byte] 0 = Inr 0x01"
    "getitem [0x01, 0x01, 0x00, 0x04, 0x08, 0x04, 0xDE, 0xAD, 0xBE, 0xEF :: byte] 5 = Inr 0x04"
    "uint (0x04 :: byte) \<le> 7"
    by (simp_all add: getitem_def)
  from read_passive_target_outcomes [OF card_script_call] g
  have "read_passive_target scripted 0x00 1 card_script =
          (Inr (Some (slice [0x01, 0x01, 0x00, 0x04, 0x08, 0x04, 0xDE, 0xAD, 0xBE, 0xEF]
                        6 (6 + unat (0x04 :: byte)))), idle)"
    by blast
  then show ?thesis
    by (simp add: card_script_call slice_def)
qed

text \<open>
  C9. In \<open>PN532.__init__\<close>, when the first attempt (wake pulse and
  \<open>get_firmware_version\<close>) fails with \<open>BusyError\<close> or a \<open>RuntimeError\<close>, the exception
  is swallowed and \<open>get_firmware_version\<close> is called once more: construction succeeds
  when that second call returns, and when it raises, its exception is the outcome of
  the construction.
\<close>

theorem bootstrap_second_attempt:
  assumes "reset_if_given T reset_pin s = (Inr (), s0)"
    and "bind_io (wakeup T) (\<lambda>_. get_firmware_version T) s0 = (Inl e, s1)"
    and "e = BusyError \<or> is_RuntimeError e"
  shows "(\<forall>v s2. get_firmware_version T s1 = (Inr v, s2) \<longrightarrow>
            PN532_init T dbg reset_pin s = (Inr \<lparr>debug = dbg\<rparr>, s2)) \<and>
         (\<forall>e2 s2. get_firmware_version T s1 = (Inl e2, s2) \<longrightarrow>
            PN532_init T dbg reset_pin s = (Inl e2, s2))"
  using assms
  by (auto simp add: PN532_init_def io_defs split: prod.splits sum.splits)

lemma bootstrap_first_attempt_succeeds:
  assumes "reset_if_given T reset_pin s = (Inr (), s0)"
    and "bind_io (wakeup T) (\<lambda>_. get_firmware_version T) s0 = (Inr v, s1)"
  shows "PN532_init T dbg reset_pin s = (Inr \<lparr>debug = dbg\<rparr>, s1)"
  using assms
  by (auto simp add: PN532_init_def io_defs split: prod.splits sum.splits)

lemma bootstrap_first_attempt_uncaught:
  assumes "reset_if_given T reset_pin s = (Inr (), s0)"
    and "bind_io (wakeup T) (\<lambda>_. get_firmware_version T) s0 = (Inl e, s1)"
    and "e \<noteq> BusyError" and "\<not> is_RuntimeError e"
  shows "PN532_init T dbg reset_pin s = (Inl e, s1)"
  using assms
  by (auto simp add: PN532_init_def io_defs split: prod.splits sum.splits)

lemma gfv_first:
  "bind_io (wakeup scripted) (\<lambda>_. get_firmware_version scripted) firmware_script =
     (Inl (RuntimeError ''Failed to detect the PN532'' []),
      firmware_script\<lparr>ready_results := [Inr True, Inr True]\<rparr>)"
  by (simp add: get_firmware_version_def run_simps firmware_script_def
      COMMAND_GETFIRMWAREVERSION_def)

lemma gfv_second:
  "get_firmware_version scripted (firmware_script\<lparr>ready_results := [Inr True, Inr True]\<rparr>) =
     (Inr [0x32, 0x01, 0x06, 0x07], idle)"
  by (simp add: get_firmware_version_def run_simps firmware_script_def
      COMMAND_GETFIRMWAREVERSION_def)

lemma gfv_absent_first:
  "bind_io (wakeup scripted) (\<lambda>_. get_firmware_version scripted) absent_script =
     (Inl (RuntimeError ''Failed to detect the PN532'' []),
      absent_script\<lparr>ready_results := [Inr False]\<rparr>)"
  by (simp add: get_firmware_version_def run_simps absent_script_def
      COMMAND_GETFIRMWAREVERSION_def)

lemma gfv_absent_second:
  "get_firmware_version scripted (absent_script\<lparr>ready_results := [Inr False]\<rparr>) =
     (Inl (RuntimeError ''Failed to detect the PN532'' []), idle)"
  by (simp add: get_firmware_version_def run_simps absent_script_def
      COMMAND_GETFIRMWAREVERSION_def)

theorem bootstrap_second_attempt_witness:
  "reset_if_given scripted None firmware_script = (Inr (), firmware_script) \<and>
   bind_io (wakeup scripted) (\<lambda>_. get_firmware_version scripted) firmware_script =
     (Inl (RuntimeError ''Failed to detect the PN532'' []),
      firmware_script\<lparr>ready_results := [Inr True, Inr True]\<rparr>) \<and>
   is_RuntimeError (RuntimeError ''Failed to detect the PN532'' []) \<and>
   PN532_init scripted False None firmware_script = (Inr \<lparr>debug = False\<rparr>, idle) \<and>
   PN532_init scripted False None absent_script =
     (Inl (RuntimeError ''Failed to detect the PN532'' []), idle)"
proof -
  have r1: "reset_if_given scripted None firmware_script = (Inr (), firmware_script)"
    and r2: "reset_if_given scripted None absent_script = (Inr (), absent_script)"
    by (simp_all add: reset_if_given_def io_defs)
  have c: "RuntimeError ''Failed to detect the PN532'' [] = BusyError \<or>
           is_RuntimeError (RuntimeError ''Failed to detect the PN532'' [])"
    by simp
  from bootstrap_second_attempt [OF r1 gfv_first c, of False] gfv_second
  have a: "PN532_init scripted False None firmware_script = (Inr \<lparr>debug = False\<rparr>, idle)"
    by blast
  from bootstrap_second_attempt [OF r2 gfv_absent_first c, of False] gfv_absent_second
  have b: "PN532_init scripted False None absent_script =
     (Inl (RuntimeError ''Failed to detect the PN532'' []), idle)"
    by blast
  from r1 gfv_first a b show ?thesis by simp
qed

lemma auth_params:
  "(let uidlen = length uid;
        keylen = length key;
        params = replicate (3 + uidlen + keylen) (0::byte);
        params = params[0 := 0x01];
        params = params[1 := k];
        params = params[2 := b];
        params = take 3 params @ key @ drop (3 + keylen) params;
        params = take (3 + keylen) params @ uid
    in f params) = f ([0x01, k, b] @ key @ uid)"
proof -
  have "replicate (3 + length uid + length key) (0::byte)
          = [0, 0, 0] @ replicate (length uid + length key) 0"
    by (simp add: numeral_eq_Suc)
  then show ?thesis
    by (simp add: Let_def numeral_eq_Suc)
qed

lemma write_params:
  "(let params = replicate 19 (0::byte);
        params = params[0 := 0x01];
        params = params[1 := k];
        params = params[2 := b];
        params = take 3 params @ data
    in f params) = f ([0x01, k, b] @ data)"
  by (simp add: Let_def numeral_eq_Suc)

lemma check_status_None: "check_status None k s = (Inl TypeError, s)"
  by (simp add: check_status_def getitem_opt_def io_defs)

text \<open>
  C10. When \<open>call_function\<close> returns \<open>None\<close>, each of
  \<open>mifare_classic_authenticate_block\<close>, \<open>mifare_classic_read_block\<close> and
  \<open>mifare_classic_write_block\<close> raises the \<open>TypeError\<close> of subscripting \<open>None\<close>.
\<close>

theorem mifare_none_response:
  "(call_function T COMMAND_INDATAEXCHANGE 1
       ([0x01, word_of_int (key_number AND 0xFF), word_of_int (block_number AND 0xFF)]
          @ key @ uid) 1 s = (Inr None, s') \<longrightarrow>
      mifare_classic_authenticate_block T uid block_number key_number key s
        = (Inl TypeError, s')) \<and>
   (call_function T COMMAND_INDATAEXCHANGE 17
       [0x01, MIFARE_CMD_READ, word_of_int (block_number AND 0xFF)] 1 s = (Inr None, s') \<longrightarrow>
      mifare_classic_read_block T block_number s = (Inl TypeError, s')) \<and>
   (length data = 16 \<and>
    call_function T COMMAND_INDATAEXCHANGE 1
       ([0x01, MIFARE_CMD_WRITE, word_of_int (block_number AND 0xFF)] @ data) 1 s
         = (Inr None, s') \<longrightarrow>
      mifare_classic_write_block T block_number data s = (Inl TypeError, s'))"
proof (intro conjI impI)
  assume "call_function T COMMAND_INDATAEXCHANGE 1
       ([0x01, word_of_int (key_number AND 0xFF), word_of_int (block_number AND 0xFF)]
          @ key @ uid) 1 s = (Inr None, s')"
  then show "mifare_classic_authenticate_block T uid block_number key_number key s
        = (Inl TypeError, s')"
    unfolding mifare_classic_authenticate_block_def auth_params
    by (simp add: bind_io_def check_status_None)
next
  assume "call_function T COMMAND_INDATAEXCHANGE 17
       [0x01, MIFARE_CMD_READ, word_of_int (block_number AND 0xFF)] 1 s = (Inr None, s')"
  then show "mifare_classic_read_block T block_number s = (Inl TypeError, s')"
    unfolding mifare_classic_read_block_def
    by (simp add: bind_io_def check_status_None)
next
  assume "length data = 16 \<and>
    call_function T COMMAND_INDATAEXCHANGE 1
       ([0x01, MIFARE_CMD_WRITE, word_of_int (block_number AND 0xFF)] @ data) 1 s
         = (Inr None, s')"
  then show "mifare_classic_write_block T block_number data s = (Inl TypeError, s')"
    unfolding mifare_classic_write_block_def write_params
    by (simp add: bind_io_def check_status_None)
qed

lemma idle_call_none:
  "length params < 253 \<Longrightarrow>
   call_function scripted command rl params timeout idle = (Inr None, idle)"
  by (simp add: call_function_def write_frame_def io_defs scripted_simps idle_def)

theorem mifare_none_response_witness:
  "call_function scripted COMMAND_INDATAEXCHANGE 17
       [0x01, MIFARE_CMD_READ, word_of_int (4 AND 0xFF)] 1 idle = (Inr None, idle) \<and>
   mifare_classic_read_block scripted 4 idle = (Inl TypeError, idle) \<and>
   mifare_classic_authenticate_block scripted [0xDE, 0xAD, 0xBE, 0xEF] 4 0x60
       [0xFF, 0xFF, 0xFF, 0xFF, 0xFF, 0xFF] idle = (Inl TypeError, idle) \<and>
   mifare_classic_write_block scripted 4 (replicate 16 0x00) idle = (Inl TypeError, idle)"
proof -
  have r: "call_function scripted COMMAND_INDATAEXCHANGE 17
       [0x01, MIFARE_CMD_READ, word_of_int (4 AND 0xFF)] 1 idle = (Inr None, idle)"
    by (rule idle_call_none) simp
  have a: "call_function scripted COMMAND_INDATAEXCHANGE 1
       ([0x01, word_of_int (0x60 AND 0xFF), word_of_int (4 AND 0xFF)]
          @ [0xFF, 0xFF, 0xFF, 0xFF, 0xFF, 0xFF] @ [0xDE, 0xAD, 0xBE, 0xEF]) 1 idle
         = (Inr None, idle)"
    by (rule idle_call_none) simp
  have w: "length (replicate 16 (0x00 :: byte)) = 16 \<and>
     call_function scripted COMMAND_INDATAEXCHANGE 1
       ([0x01, MIFARE_CMD_WRITE, word_of_int (4 AND 0xFF)] @ replicate 16 0x00) 1 idle
         = (Inr None, idle)"
    by (simp add: idle_call_none)
  from mifare_none_response [where T = scripted and s = idle and s' = idle and block_number = 4] r
  have r': "mifare_classic_read_block scripted 4 idle = (Inl TypeError, idle)"
    by blast
  from mifare_none_response [where T = scripted and s = idle and s' = idle and block_number = 4
      and key_number = "0x60" and key = "[0xFF, 0xFF, 0xFF, 0xFF, 0xFF, 0xFF]"
      and uid = "[0xDE, 0xAD, 0xBE, 0xEF]"] a
  have a': "mifare_classic_authenticate_block scripted [0xDE, 0xAD, 0xBE, 0xEF] 4 0x60
       [0xFF, 0xFF, 0xFF, 0xFF, 0xFF, 0xFF] idle = (Inl TypeError, idle)"
    by blast
  from mifare_none_response [where T = scripted and s = idle and s' = idle and block_number = 4
      and data = "replicate 16 0x00"] w
  have w': "mifare_classic_write_block scripted 4 (replicate 16 0x00) idle = (Inl TypeError, idle)"
    by blast
  from r r' a' w' show ?thesis by blast
qed

end
